theory Spec2Isabelle
  imports Complex_Main "HOL-Library.Sublist"
begin

section \<open>Python strings\<close>

text \<open>
  A Python \<open>str\<close> is modelled as a \<^typ>\<open>string\<close> whose characters are the code points
  below 256 (Latin-1), one \<^typ>\<open>char\<close> per code point, so that \<open>len\<close> is \<^const>\<open>length\<close>.
  Every string literal of the source lies in that range; its accented letters are written
  by code point (\<open>CHR 0xE9\<close> is e with acute accent). The character classes below are
  those of CPython for these code points.
\<close>

definition is_space :: "char \<Rightarrow> bool" where
  \<comment> \<open>\<open>str.isspace\<close>, which is also what \<open>str.strip()\<close> removes and what \<open>\\s\<close> matches\<close>
  "is_space c =
     (let n = (of_char c :: nat)
      in (9 \<le> n \<and> n \<le> 13) \<or> (28 \<le> n \<and> n \<le> 32) \<or> n = 133 \<or> n = 160)"

definition is_word :: "char \<Rightarrow> bool" where
  \<comment> \<open>what \<open>\\w\<close> matches in a \<open>str\<close> pattern: alphanumerics and the underscore\<close>
  "is_word c =
     (let n = (of_char c :: nat)
      in (48 \<le> n \<and> n \<le> 57) \<or> (65 \<le> n \<and> n \<le> 90) \<or> n = 95 \<or> (97 \<le> n \<and> n \<le> 122)
         \<or> n = 170 \<or> n = 178 \<or> n = 179 \<or> n = 181 \<or> n = 185 \<or> n = 186
         \<or> (188 \<le> n \<and> n \<le> 190) \<or> (192 \<le> n \<and> n \<le> 214) \<or> (216 \<le> n \<and> n \<le> 246)
         \<or> 248 \<le> n)"

definition lower_char :: "char \<Rightarrow> char" where
  "lower_char c =
     (let n = (of_char c :: nat)
      in if (65 \<le> n \<and> n \<le> 90) \<or> (192 \<le> n \<and> n \<le> 222 \<and> n \<noteq> 215)
         then char_of (n + 32) else c)"

definition py_lower :: "string \<Rightarrow> string" where
  "py_lower s = map lower_char s"

definition py_strip :: "string \<Rightarrow> string" where
  "py_strip s = rev (dropWhile is_space (rev (dropWhile is_space s)))"

fun py_in :: "string \<Rightarrow> string \<Rightarrow> bool" where
  \<comment> \<open>\<open>t in s\<close>: \<open>t\<close> occurs in \<open>s\<close> as a contiguous substring\<close>
  "py_in t [] = (t = [])"
| "py_in t (c # cs) = (prefix t (c # cs) \<or> py_in t cs)"

definition py_any_in :: "string list \<Rightarrow> string \<Rightarrow> bool" where
  \<comment> \<open>\<open>any(w in s for w in ws)\<close>\<close>
  "py_any_in ws s = list_ex (\<lambda>w. py_in w s) ws"

fun split_on :: "char \<Rightarrow> string \<Rightarrow> string list" where
  \<comment> \<open>\<open>s.split(sep)\<close> for a one-character separator: never the empty list\<close>
  "split_on sep [] = [[]]"
| "split_on sep (c # cs) =
     (case split_on sep cs of
        [] \<Rightarrow> [[c]]
      | l # ls \<Rightarrow> if c = sep then [] # l # ls else (c # l) # ls)"

fun py_take :: "int \<Rightarrow> 'a list \<Rightarrow> 'a list" where
  \<comment> \<open>the slice \<open>xs[:n]\<close>; a negative \<open>n\<close> counts from the end\<close>
  "py_take n xs = (if 0 \<le> n then take (nat n) xs else take (length xs - nat (- n)) xs)"

section \<open>Query planning\<close>

text \<open>
  The fast model is opaque: a call either raises (the API fails, the reply has no content
  block) or yields the text of the first content block.
\<close>

datatype llm_reply = LLMError | LLMText string

definition plan_prompt :: "string \<Rightarrow> string" where
  "plan_prompt query =
     ''Decompose the following question into 2-3 concise sub-questions that help answer it step-by-step.''
     @ [CHR 0x0A] @ ''Return only the sub-questions, one per line.'' @ [CHR 0x0A] @ [CHR 0x0A]
     @ ''Question: '' @ [CHR 0x22] @ query @ [CHR 0x22] @ [CHR 0x0A]"

definition plan_query :: "(string \<Rightarrow> llm_reply) \<Rightarrow> string \<Rightarrow> string list" where
  \<comment> \<open>\<open>_plan_query\<close>: the \<open>except Exception\<close> branch is the \<open>LLMError\<close> case\<close>
  "plan_query claude query =
     (case claude (plan_prompt query) of
        LLMError \<Rightarrow> [query]
      | LLMText text \<Rightarrow>
          (let subs = map py_strip
                        (filter (\<lambda>s. py_strip s \<noteq> []) (split_on (CHR 0x0A) (py_strip text)))
           in if subs \<noteq> [] then py_take 3 subs else [query]))"

section \<open>Documents\<close>

text \<open>
  A document is a Python dict. The keys the pipeline reads are fields here; a key that may
  be absent is an option, \<open>None\<close> standing for the absent key. Scores are finite
  floats, idealised as reals.
\<close>

datatype stamp =
    NoStamp          \<comment> \<open>\<open>updatedAt\<close> and \<open>createdAt\<close> both absent or falsy\<close>
  | BadStamp         \<comment> \<open>a value is there, and converting it raises\<close>
  | NaiveStamp real  \<comment> \<open>an ISO string without UTC offset: it converts to a naive datetime
                         (the instant it names, read as UTC), and subtracting that from the
                         aware \<open>now\<close> raises TypeError\<close>
  | Stamp real       \<comment> \<open>a number, or an ISO string with an offset: the instant, in seconds
                         since the epoch\<close>

record document =
  doc_id :: "string option"
  content :: string
  score :: "real option"
  vector_score :: "real option"
  temporal_boost :: "real option"
  final_score :: "real option"
  meta_stamp :: stamp
  meta_doc_type :: "string option"

definition get_or :: "'a option \<Rightarrow> 'a \<Rightarrow> 'a" where
  \<comment> \<open>\<open>d.get(key, default)\<close>\<close>
  "get_or v dflt = (case v of None \<Rightarrow> dflt | Some x \<Rightarrow> x)"

section \<open>Formatting\<close>

definition digit :: "nat \<Rightarrow> char" where
  "digit n = ''0123456789'' ! (n mod 10)"

fun show_nat :: "nat \<Rightarrow> string" where
  "show_nat n = (if n < 10 then [digit n] else show_nat (n div 10) @ [digit n])"

declare show_nat.simps [simp del]

definition round_half_even :: "real \<Rightarrow> int" where
  "round_half_even x =
     (let f = \<lfloor>x\<rfloor>; d = x - of_int f
      in if d < 1 / 2 then f else if 1 / 2 < d then f + 1 else if even f then f else f + 1)"

definition format_2f :: "real \<Rightarrow> string" where
  \<comment> \<open>\<open>f"{x:.2f}"\<close>: the exact value rounded to two decimals, ties to even\<close>
  "format_2f x =
     (let n = nat (round_half_even (\<bar>x\<bar> * 100))
      in (if x < 0 then ''-'' else []) @ show_nat (n div 100) @ ''.''
         @ [digit (n div 10), digit n])"

fun py_join :: "string \<Rightarrow> string list \<Rightarrow> string" where
  "py_join sep [] = []"
| "py_join sep [p] = p"
| "py_join sep (p # q # ps) = p @ sep @ py_join sep (q # ps)"

section \<open>Context compression\<close>

definition full_part :: "nat \<Rightarrow> document \<Rightarrow> string" where
  "full_part i doc =
     ''[Doc '' @ show_nat (i + 1) @ ''] (Score: '' @ format_2f (get_or (final_score doc) 0) @ '')''
     @ [CHR 0x0A] @ content doc @ [CHR 0x0A]"

definition truncated_part :: "nat \<Rightarrow> document \<Rightarrow> int \<Rightarrow> string" where
  "truncated_part i doc remaining =
     ''[Doc '' @ show_nat (i + 1) @ ''] (Score: '' @ format_2f (get_or (final_score doc) 0) @ '')''
     @ [CHR 0x0A] @ py_take remaining (content doc) @ ''... [truncated]'' @ [CHR 0x0A]"

definition summary_part :: "nat \<Rightarrow> string \<Rightarrow> string" where
  "summary_part i summary =
     ''[Doc '' @ show_nat (i + 1) @ ''] (Summary)'' @ [CHR 0x0A] @ summary @ ''...'' @ [CHR 0x0A]"

fun compress_loop ::
  "int \<Rightarrow> nat \<Rightarrow> document list \<Rightarrow> string list \<Rightarrow> int \<Rightarrow> string list \<times> int"
where
  \<comment> \<open>the \<open>for i, doc in enumerate(documents)\<close> loop, from index \<open>i\<close>, with the values of
      \<open>context_parts\<close> and \<open>current_size\<close>; each \<open>break\<close> returns them as they are\<close>
  "compress_loop max_chars i [] context_parts current_size = (context_parts, current_size)"
| "compress_loop max_chars i (doc # rest) context_parts current_size =
     (if i < 10 \<or> get_or (final_score doc) 0 > 0.8 then
        if current_size + int (length (content doc)) \<le> max_chars then
          compress_loop max_chars (i + 1) rest
            (context_parts @ [full_part i doc]) (current_size + int (length (content doc)))
        else
          (let remaining = max_chars - current_size
           in if remaining > 500
              then (context_parts @ [truncated_part i doc remaining], current_size + remaining)
              else (context_parts, current_size))
      else
        (let summary = (if length (content doc) > 1500 then take 1500 (content doc)
                        else content doc)
         in if current_size + int (length summary) \<le> max_chars then
              compress_loop max_chars (i + 1) rest
                (context_parts @ [summary_part i summary]) (current_size + int (length summary))
            else (context_parts, current_size)))"

definition compress_context :: "document list \<Rightarrow> int \<Rightarrow> string" where
  "compress_context documents max_chars =
     (if documents = [] then []
      else py_join [CHR 0x0A] (fst (compress_loop max_chars 0 documents [] 0)))"

section \<open>Retrieval: merging, deduplication, temporal weighting\<close>

text \<open>
  The retrievers are opaque. \<open>multi_agent_retrieval\<close> receives what the launched agents
  returned, in the order in which they completed: \<open>None\<close> for an agent whose future
  raised, \<open>Some docs\<close> otherwise. Python's \<open>hash\<close> on strings is the parameter
  \<open>h\<close>; nothing is assumed about it.
\<close>

fun dedup_loop ::
  "(string \<Rightarrow> int) \<Rightarrow> document list \<Rightarrow> int set \<Rightarrow> document list \<Rightarrow> document list"
where
  "dedup_loop h [] seen unique_docs = unique_docs"
| "dedup_loop h (doc # rest) seen unique_docs =
     (let doc_hash = h (take 200 (content doc))
      in if doc_hash \<notin> seen
         then dedup_loop h rest (insert doc_hash seen) (unique_docs @ [doc])
         else dedup_loop h rest seen unique_docs)"

definition collect_results :: "document list option list \<Rightarrow> document list" where
  \<comment> \<open>the \<open>as_completed\<close> loop: a failed agent contributes nothing\<close>
  "collect_results outcomes =
     concat (map (\<lambda>r. case r of None \<Rightarrow> [] | Some docs \<Rightarrow> docs) outcomes)"

definition multi_agent_retrieval ::
  "(string \<Rightarrow> int) \<Rightarrow> document list option list \<Rightarrow> document list"
where
  "multi_agent_retrieval h outcomes = dedup_loop h (collect_results outcomes) {} []"

definition try_boost :: "real \<Rightarrow> int \<Rightarrow> real \<Rightarrow> real option" where
  \<comment> \<open>the age schedule inside the \<open>try\<close> block; \<open>None\<close> when the division by
      \<open>half_life_days\<close> raises ZeroDivisionError\<close>
  "try_boost now half_life_days t =
     (let age_days = max 0 ((now - t) / 86400)
      in if age_days \<le> 1 then Some 3
         else if age_days \<le> 3 then Some 2
         else if age_days \<le> 7 then Some 1.5
         else if half_life_days = 0 then None
         else Some (1 + exp (- age_days / real_of_int half_life_days)))"

definition boost_of :: "real \<Rightarrow> int \<Rightarrow> document \<Rightarrow> real" where
  \<comment> \<open>the value the loop of \<open>_temporal_agent\<close> stores in \<open>doc['temporal_boost']\<close>\<close>
  "boost_of now half_life_days doc =
     (case meta_stamp doc of
        NoStamp \<Rightarrow> 1
      | BadStamp \<Rightarrow> 1.1
      | NaiveStamp t \<Rightarrow> 1.1
      | Stamp t \<Rightarrow>
          (case try_boost now half_life_days t of
             None \<Rightarrow> 1.1
           | Some boost \<Rightarrow>
               if meta_doc_type doc = Some ''backtest_result'' then boost * 1.3 else boost))"


definition spec_schedule :: "real \<Rightarrow> int \<Rightarrow> real" where
  \<comment> \<open>the schedule in the specification's words, as a function of the age in days\<close>
  "spec_schedule age_days half_life_days =
     (if age_days \<le> 1 then 3 else if age_days \<le> 3 then 2 else if age_days \<le> 7 then 1.5
      else 1 + exp (- age_days / real_of_int half_life_days))"

section \<open>Re-ranking\<close>

definition quick_key :: "document \<Rightarrow> real" where
  "quick_key x = get_or (score x) 0 + get_or (vector_score x) 0"

definition combined_score :: "(string \<Rightarrow> string \<Rightarrow> real) \<Rightarrow> string \<Rightarrow> document \<Rightarrow> real" where
  \<comment> \<open>\<open>ce\<close> is the cross-encoder on one (query, text) pair\<close>
  "combined_score ce query doc =
     (let s0 = ce query (take 1000 (content doc));
          s1 = (case vector_score doc of None \<Rightarrow> s0 | Some v \<Rightarrow> s0 + v * 0.2);
          s2 = (case temporal_boost doc of None \<Rightarrow> s1 | Some b \<Rightarrow> s1 * b)
      in if py_in (py_lower query) (py_lower (content doc)) then s2 * 1.2 else s2)"

definition rerank_documents ::
  "(string \<Rightarrow> string \<Rightarrow> real) \<Rightarrow> string \<Rightarrow> document list \<Rightarrow> int \<Rightarrow> document list"
where
  \<comment> \<open>both sorts are stable and descending, as \<open>sorted(..., reverse=True)\<close> is\<close>
  "rerank_documents ce query documents top_k =
     (if documents = [] then []
      else
        let quick_sorted = sort_key (\<lambda>x. - quick_key x) documents;
            candidates_limit = min (int (length quick_sorted)) (max 50 (top_k * 2));
            candidates = py_take candidates_limit quick_sorted;
            scored = map (\<lambda>doc. doc\<lparr>final_score := Some (combined_score ce query doc)\<rparr>)
                       candidates;
            ranked = sort_key (\<lambda>x. - get_or (final_score x) 0) scored
        in py_take top_k ranked)"

section \<open>Query analysis and the strategy planner\<close>

record temporal =
  has_temporal :: bool
  days_back :: "int option"
  keyword :: "string option"

record processed_query =
  original :: string
  concepts :: "string list"
  expansions :: "string list"
  temporal :: temporal
  intent :: string

definition temporal_keywords :: "(string \<times> int) list" where
  \<comment> \<open>the dict literal of \<open>extract_temporal\<close>, in insertion order\<close>
  "temporal_keywords =
     [(''hoje'', 0), (''ontem'', 1), (''anteontem'', 2), (''semana'', 7),
      (''m'' @ [CHR 0xEA] @ ''s'', 30), (''recente'', 7),
      ([CHR 0xFA] @ ''ltimo'', 3), (''nova'', 3), (''atual'', 1)]"

definition extract_temporal :: "string \<Rightarrow> temporal" where
  "extract_temporal query =
     (case find (\<lambda>(kw, days). py_in kw (py_lower query)) temporal_keywords of
        Some (kw, days) \<Rightarrow>
          \<lparr>has_temporal = True, days_back = Some days, keyword = Some kw\<rparr>
      | None \<Rightarrow> \<lparr>has_temporal = False, days_back = None, keyword = None\<rparr>)"

definition classify_intent :: "string \<Rightarrow> string" where
  "classify_intent query =
     (let query_lower = py_lower query
      in if py_any_in [''c'' @ [CHR 0xF3] @ ''digo'', ''fun'' @ [CHR 0xE7, CHR 0xE3] @ ''o'',
                       ''classe'', ''implementa'' @ [CHR 0xE7, CHR 0xE3] @ ''o'', ''bug'', ''erro'']
              query_lower
         then ''code''
         else if py_any_in [''configurar'', ''setup'', ''instalar'', ''config''] query_lower
         then ''config''
         else if py_any_in [''como'', ''porque'', ''explique'', ''entender'', ''funciona'']
                   query_lower
         then ''explain''
         else if py_any_in [''status'', ''progresso'', ''fase'', ''andamento''] query_lower
         then ''status''
         else ''general'')"

definition reply_lines :: "llm_reply \<Rightarrow> int \<Rightarrow> string list" where
  \<comment> \<open>the body shared by \<open>extract_concepts\<close> (at most 5 lines) and \<open>expand_query\<close>
      (at most 3): the stripped non-blank lines of the reply, or \<open>[]\<close> when the call raises\<close>
  "reply_lines reply n =
     (case reply of
        LLMError \<Rightarrow> []
      | LLMText text \<Rightarrow>
          py_take n (map py_strip
            (filter (\<lambda>c. py_strip c \<noteq> []) (split_on (CHR 0x0A) (py_strip text)))))"

definition concepts_prompt :: "string \<Rightarrow> string" where
  "concepts_prompt query =
     ''Extract key technical concepts and terms from this query.'' @ [CHR 0x0A]
     @ ''Focus on nouns, technical terms, and important keywords.'' @ [CHR 0x0A] @ [CHR 0x0A]
     @ ''Query: '' @ [CHR 0x22] @ query @ [CHR 0x22] @ [CHR 0x0A] @ [CHR 0x0A]
     @ ''Return only the concepts, one per line, max 5.'' @ [CHR 0x0A]"

definition expand_prompt :: "string \<Rightarrow> string" where
  "expand_prompt query =
     ''Generate search variations for: '' @ [CHR 0x22] @ query @ [CHR 0x22] @ [CHR 0x0A]
     @ ''Include synonyms, related terms, and different phrasings.'' @ [CHR 0x0A]
     @ ''Return max 3 variations, one per line.'' @ [CHR 0x0A]"

definition process_query :: "(string \<Rightarrow> llm_reply) \<Rightarrow> string \<Rightarrow> processed_query" where
  \<comment> \<open>none of the four extractors can raise, so every key of \<open>results\<close> is set\<close>
  "process_query claude query =
     \<lparr>original = query,
      concepts = reply_lines (claude (concepts_prompt query)) 5,
      expansions = reply_lines (claude (expand_prompt query)) 3,
      temporal = extract_temporal query,
      intent = classify_intent query\<rparr>"

record strategy =
  mode :: string
  use_vector :: bool
  use_memory :: bool
  use_recent :: bool
  use_code :: bool
  use_keywords :: bool
  use_graph :: bool
  top_k :: int
  vector_n_results :: int
  memory_limit :: int
  memory_concepts :: int
  use_planning :: bool

definition objective_markers :: "string list" where
  "objective_markers =
     [''onde'', ''qual arquivo'', ''linha'', ''par'' @ [CHR 0xE2] @ ''metro'', ''flag'', ''comando'']"

definition generic_terms :: "string list" where
  "generic_terms =
     [''o que '' @ [CHR 0xE9], ''defina'', ''defini'' @ [CHR 0xE7, CHR 0xE3] @ ''o de'']"

definition project_tokens :: "string list" where
  "project_tokens = [''selector21'', ''botscalp'', ''mcp'', ''rag'']"

definition planning_triggers :: "string list" where
  "planning_triggers =
     [''pipeline'', ''fluxo'', ''passos'', ''decompor'', ''entender'', ''descrever'', ''inteiro'']"

definition decide_retrieval_strategy :: "int \<Rightarrow> processed_query \<Rightarrow> strategy" where
  \<comment> \<open>\<open>_decide_retrieval_strategy\<close>; the key \<open>use_planning\<close>, which the source adds last,
      is a field from the start and gets its value in the last step\<close>
  "decide_retrieval_strategy default_top_k pq =
     (let q = original pq;
          ql = py_lower q;
          is_objective = py_any_in objective_markers ql;
          s0 = \<lparr>mode = ''hybrid'', use_vector = True, use_memory = True,
                use_recent = has_temporal (temporal pq),
                use_code = (intent pq = ''code''),
                use_keywords = (intent pq \<noteq> ''code''),
                use_graph = (intent pq \<in> {''status'', ''explain'', ''general''}),
                top_k = 20, vector_n_results = 10, memory_limit = 20, memory_concepts = 3,
                use_planning = False\<rparr>;
          s1 = (if intent pq = ''code''
                then s0\<lparr>use_code := True, top_k := 15, vector_n_results := 15,
                        memory_limit := 10\<rparr>
                else if intent pq = ''status'' \<or> intent pq = ''config''
                then s0\<lparr>top_k := 15, vector_n_results := 8, memory_limit := 15\<rparr>
                else if intent pq = ''explain''
                then s0\<lparr>top_k := max default_top_k 50, vector_n_results := 15,
                        memory_limit := 30\<rparr>
                else s0);
          s2 = (if is_objective
                then s1\<lparr>top_k := min (top_k s1) 12,
                        vector_n_results := min (vector_n_results s1) 8,
                        use_keywords := True, use_graph := False\<rparr>
                else if int (length q) > 120
                then s1\<lparr>top_k := max (top_k s1) (max default_top_k 50),
                        vector_n_results := max (vector_n_results s1) 18\<rparr>
                else s1);
          s3 = (if intent pq = ''explain'' \<and> py_any_in generic_terms ql
                   \<and> \<not> py_any_in project_tokens ql
                then s2\<lparr>mode := ''none'', use_vector := False, use_memory := False,
                        use_code := False, use_keywords := False, use_graph := False\<rparr>
                else s2)
      in s3\<lparr>use_planning := (length q > 160 \<or> py_any_in planning_triggers ql)\<rparr>)"

section \<open>The query cache\<close>

text \<open>
  The cache directory is the collection of its \<open>*.json\<close> files, one file per key; the
  list that holds them carries no meaning in its order. The order in which
  \<open>cache_dir.glob("*.json")\<close> returns the files is decided by the file system: it is the
  field \<open>cache_dir\<close> of the cache, a function from the files the directory holds to their
  listing. A file is unreadable (its text is not JSON) or holds a JSON object whose keys
  \<open>ts\<close>, \<open>ttl\<close> and \<open>payload\<close> may each be absent. A payload is kept abstract: what
  \<open>json.dumps\<close> writes, \<open>json.loads\<close> reads back. The clock is a parameter: \<open>now\<close>
  for \<open>time.time()\<close>, \<open>mtime\<close> for the modification time the file system stamps.
\<close>

record 'p cache_record =
  rec_ts :: "real option"
  rec_ttl :: "int option"
  rec_payload :: "'p option"

datatype 'p file_body = Unreadable | Readable "'p cache_record"

record 'p cache_file =
  f_key :: string
  f_mtime :: real
  f_body :: "'p file_body"

record 'p query_cache =
  cache_dir :: "'p cache_file list \<Rightarrow> 'p cache_file list"
  default_ttl :: int
  max_entries :: int

definition new_cache ::
  "('p cache_file list \<Rightarrow> 'p cache_file list) \<Rightarrow> int \<Rightarrow> int \<Rightarrow> 'p query_cache"
where
  \<comment> \<open>\<open>QueryCache.__init__\<close>\<close>
  "new_cache dir_listing ttl_seconds cap =
     \<lparr>cache_dir = dir_listing, default_ttl = max 0 ttl_seconds, max_entries = max 0 cap\<rparr>"

definition unlink :: "string \<Rightarrow> 'p cache_file list \<Rightarrow> 'p cache_file list" where
  "unlink key dir = filter (\<lambda>f. f_key f \<noteq> key) dir"

definition cache_get ::
  "'p query_cache \<Rightarrow> real \<Rightarrow> string \<Rightarrow> 'p cache_file list \<Rightarrow> 'p option \<times> 'p cache_file list"
where
  \<comment> \<open>\<open>QueryCache.get\<close>: the value returned and the directory afterwards\<close>
  "cache_get cache now key dir =
     (case find (\<lambda>f. f_key f = key) dir of
        None \<Rightarrow> (None, dir)
      | Some f \<Rightarrow>
          (case f_body f of
             Unreadable \<Rightarrow> (None, unlink key dir)
           | Readable raw \<Rightarrow>
               (let ts = get_or (rec_ts raw) 0;
                    ttl = get_or (rec_ttl raw) (default_ttl cache)
                in if ttl \<noteq> 0 \<and> now - ts > real_of_int ttl
                   then (None, unlink key dir)
                   else (rec_payload raw, dir))))"

definition write_text ::
  "string \<Rightarrow> real \<Rightarrow> 'p file_body \<Rightarrow> 'p cache_file list \<Rightarrow> 'p cache_file list"
where
  \<comment> \<open>the file of that key gets the new text and modification time, whether it existed
      or not\<close>
  "write_text key mtime body dir =
     (if key \<in> set (map f_key dir)
      then map (\<lambda>f. if f_key f = key then f\<lparr>f_mtime := mtime, f_body := body\<rparr> else f) dir
      else dir @ [\<lparr>f_key = key, f_mtime = mtime, f_body = body\<rparr>])"

fun py_drop :: "int \<Rightarrow> 'a list \<Rightarrow> 'a list" where
  \<comment> \<open>the slice \<open>xs[n:]\<close>; a negative \<open>n\<close> counts from the end\<close>
  "py_drop n xs = (if 0 \<le> n then drop (nat n) xs else drop (length xs - nat (- n)) xs)"

definition prune :: "'p query_cache \<Rightarrow> 'p cache_file list \<Rightarrow> 'p cache_file list" where
  \<comment> \<open>\<open>_prune\<close>: the listing sorted newest first, stably; everything after the first
      \<open>max_entries\<close> is unlinked\<close>
  "prune cache dir =
     (let files = sort_key (\<lambda>p. - f_mtime p) (cache_dir cache dir);
          stale = py_drop (max_entries cache) files
      in filter (\<lambda>f. f_key f \<notin> set (map f_key stale)) dir)"

definition cache_set ::
  "'p query_cache \<Rightarrow> real \<Rightarrow> real \<Rightarrow> string \<Rightarrow> 'p \<Rightarrow> int option \<Rightarrow> 'p cache_file list
   \<Rightarrow> 'p cache_file list"
where
  \<comment> \<open>\<open>QueryCache.set\<close>\<close>
  "cache_set cache now mtime key payload ttl dir =
     (if max_entries cache = 0 then dir
      else
        let record = \<lparr>rec_ts = Some now,
                      rec_ttl = Some (case ttl of None \<Rightarrow> default_ttl cache | Some t \<Rightarrow> t),
                      rec_payload = Some payload\<rparr>
        in prune cache (write_text key mtime (Readable record) dir))"

section \<open>Cache keys\<close>

definition strip_punct :: "string \<Rightarrow> string" where
  \<comment> \<open>\<open>re.sub(r'[^\\w\\s]', '', s)\<close>\<close>
  "strip_punct s = filter (\<lambda>c. is_word c \<or> is_space c) s"

function collapse_ws :: "string \<Rightarrow> string" where
  \<comment> \<open>\<open>re.sub(r'\\s+', ' ', s)\<close>: every maximal run of whitespace becomes one space\<close>
  "collapse_ws [] = []"
| "collapse_ws (c # cs) =
     (if is_space c then CHR '' '' # collapse_ws (dropWhile is_space cs)
      else c # collapse_ws cs)"
  by pat_completeness auto
termination
  by (relation "measure length") (auto simp: less_Suc_eq_le length_dropWhile_le)

definition normalize_query :: "string \<Rightarrow> string" where
  \<comment> \<open>the three assignments to \<open>normalized_query\<close> in \<open>_build_cache_key\<close>\<close>
  "normalize_query query = collapse_ws (strip_punct (py_lower (py_strip query)))"

record key_parts =
  kp_project :: string
  kp_query :: string
  kp_intent :: string
  kp_top_k :: int
  kp_context_max :: int
  kp_vector :: bool
  kp_memory :: bool
  kp_recent :: bool

record 'p rag =
  project_name :: string
  context_max_chars :: int
  default_top_k :: int
  cache :: "'p query_cache option"
  intent_cache_policy :: "(string \<times> int) list"

definition build_cache_key ::
  "(key_parts \<Rightarrow> string) \<Rightarrow> 'p rag \<Rightarrow> string \<Rightarrow> processed_query \<Rightarrow> strategy \<Rightarrow> string option"
where
  \<comment> \<open>\<open>make_key\<close>, the SHA-256 digest of the canonical JSON of the parts, is the
      parameter \<open>digest\<close>\<close>
  "build_cache_key digest self query pq strat =
     (case cache self of
        None \<Rightarrow> None
      | Some c \<Rightarrow>
          Some (digest \<lparr>kp_project = project_name self, kp_query = normalize_query query,
                        kp_intent = intent pq, kp_top_k = top_k strat,
                        kp_context_max = context_max_chars self,
                        kp_vector = use_vector strat, kp_memory = use_memory strat,
                        kp_recent = use_recent strat\<rparr>))"

definition cache_ttl_for_intent :: "'p rag \<Rightarrow> string \<Rightarrow> int" where
  "cache_ttl_for_intent self i =
     (case cache self of
        None \<Rightarrow> 0
      | Some c \<Rightarrow>
          (case map_of (intent_cache_policy self) i of
             None \<Rightarrow> default_ttl c
           | Some ttl \<Rightarrow> if ttl < 0 then default_ttl c else ttl))"

section \<open>The pipeline\<close>

text \<open>
  An answer is the fixed "no relevant information" sentence or a text of the main model.
  A run record keeps the fields the claims read; \<open>query\<close>, \<open>project\<close>, \<open>elapsed_sec\<close>
  and \<open>timestamp\<close> are left out. The main model call raises or returns a text; its prompt
  is built from the query, the context, the intent, the concepts and the two counts, and
  the model is applied to these directly.
\<close>

datatype answer = NoInformation | Generated string

datatype pipeline_error = GenerationFailed

record run_record =
  rr_intent :: string
  retrieved :: nat
  reranked :: nat
  context_chars :: nat
  confidence :: real
  from_cache :: bool
  rr_answer :: answer
  cache_ttl :: int

record answer_meta =
  am_intent :: string
  am_concepts :: "string list"
  total_docs :: nat
  reranked_docs :: nat

record env =
  fast_llm :: "string \<Rightarrow> llm_reply"
  main_llm :: "string \<Rightarrow> string \<Rightarrow> answer_meta \<Rightarrow> llm_reply"
  agents :: "processed_query \<Rightarrow> strategy \<Rightarrow> document list option list"
  cross_encoder :: "string \<Rightarrow> string \<Rightarrow> real"
  str_hash :: "string \<Rightarrow> int"
  digest :: "key_parts \<Rightarrow> string"

record query_result =
  returned :: "answer \<times> real"
  logged :: run_record
  dir_after :: "run_record cache_file list"

definition generate_answer ::
  "(string \<Rightarrow> string \<Rightarrow> answer_meta \<Rightarrow> llm_reply) \<Rightarrow> string \<Rightarrow> string \<Rightarrow> answer_meta
   \<Rightarrow> pipeline_error + answer"
where
  \<comment> \<open>no handler around the model call: its exception leaves \<open>generate_answer\<close>\<close>
  "generate_answer llm q context metadata =
     (if context = [] then Inr NoInformation
      else case llm q context metadata of
             LLMError \<Rightarrow> Inl GenerationFailed
           | LLMText text \<Rightarrow> Inr (Generated text))"

definition retrieve :: "env \<Rightarrow> string \<Rightarrow> processed_query \<Rightarrow> strategy \<Rightarrow> document list" where
  \<comment> \<open>stage 2 of \<open>query\<close>: with planning, one retrieval per sub-question, concatenated\<close>
  "retrieve e user_query pq strat =
     (if use_planning strat
      then concat (map (\<lambda>sq. multi_agent_retrieval (str_hash e)
                              (agents e (process_query (fast_llm e) sq) strat))
                    (plan_query (fast_llm e) user_query))
      else multi_agent_retrieval (str_hash e) (agents e pq strat))"

definition query ::
  "env \<Rightarrow> run_record rag \<Rightarrow> real \<Rightarrow> real \<Rightarrow> real \<Rightarrow> run_record cache_file list \<Rightarrow> string
   \<Rightarrow> pipeline_error + query_result"
where
  \<comment> \<open>\<open>t_get\<close> and \<open>t_set\<close> are the clock readings inside \<open>cache.get\<close> and
      \<open>cache.set\<close>, \<open>t_mtime\<close> the modification time of the file written\<close>
  "query e self t_get t_set t_mtime dir user_query =
     (let pq = process_query (fast_llm e) user_query;
          strat = decide_retrieval_strategy (default_top_k self) pq;
          cache_key = build_cache_key (digest e) self user_query pq strat;
          probe = (case (cache self, cache_key) of
                     (Some c, Some k) \<Rightarrow> cache_get c t_get k dir
                   | _ \<Rightarrow> (None, dir));
          ttl = cache_ttl_for_intent self (intent pq);
          store = (\<lambda>stats d. case (cache self, cache_key) of
                     (Some c, Some k) \<Rightarrow> cache_set c t_set t_mtime k stats (Some ttl) d
                   | _ \<Rightarrow> d)
      in case fst probe of
           Some cached_payload \<Rightarrow>
             Inr \<lparr>returned = (rr_answer cached_payload, confidence cached_payload),
                  logged = cached_payload\<lparr>rr_intent := intent pq, from_cache := True\<rparr>,
                  dir_after = snd probe\<rparr>
         | None \<Rightarrow>
             if mode strat = ''none'' then
               (case generate_answer (main_llm e) user_query []
                       \<lparr>am_intent = intent pq, am_concepts = [], total_docs = 0,
                        reranked_docs = 0\<rparr> of
                  Inl err \<Rightarrow> Inl err
                | Inr ans \<Rightarrow>
                    (let stats = \<lparr>rr_intent = intent pq, retrieved = 0, reranked = 0,
                                  context_chars = 0, confidence = 50, from_cache = False,
                                  rr_answer = ans, cache_ttl = ttl\<rparr>
                     in Inr \<lparr>returned = (ans, 50), logged = stats,
                             dir_after = store stats (snd probe)\<rparr>))
             else
               (let documents = retrieve e user_query pq strat
                in if documents = [] then
                     (let no_data_stats =
                            \<lparr>rr_intent = intent pq, retrieved = 0, reranked = 0,
                             context_chars = 0, confidence = 0, from_cache = False,
                             rr_answer = NoInformation, cache_ttl = ttl\<rparr>
                      in Inr \<lparr>returned = (NoInformation, 0), logged = no_data_stats,
                              dir_after = store no_data_stats (snd probe)\<rparr>)
                   else
                     (let reranked_docs =
                            rerank_documents (cross_encoder e) user_query documents (top_k strat);
                          compressed_context =
                            compress_context reranked_docs (context_max_chars self)
                      in case generate_answer (main_llm e) user_query compressed_context
                                \<lparr>am_intent = intent pq, am_concepts = concepts pq,
                                 total_docs = length documents,
                                 reranked_docs = length reranked_docs\<rparr> of
                           Inl err \<Rightarrow> Inl err
                         | Inr ans \<Rightarrow>
                             (let conf = min 100 (real (length reranked_docs) * 2);
                                  run_payload =
                                    \<lparr>rr_intent = intent pq, retrieved = length documents,
                                     reranked = length reranked_docs,
                                     context_chars = length compressed_context,
                                     confidence = conf, from_cache = False,
                                     rr_answer = ans, cache_ttl = ttl\<rparr>
                              in Inr \<lparr>returned = (ans, conf), logged = run_payload,
                                      dir_after = store run_payload (snd probe)\<rparr>))))"

section \<open>The memory search client\<close>

text \<open>
  The output of the memory client carries the check mark U+2705, which is outside Latin-1:
  in this section a text is the list of its code points. The subprocess, the removal of
  ANSI escapes, \<open>json.loads\<close> and \<open>re.findall\<close> with the observations pattern are
  library calls, taken as parameters. A parsed JSON value is a \<open>json\<close>; the operations
  on it fail as Python's do on a value of the wrong type.
\<close>

type_synonym utext = "nat list"

definition ascii :: "string \<Rightarrow> utext" where
  "ascii s = map of_char s"

datatype json =
    JNull | JBool bool | JNum real | JStr utext | JArr "json list" | JObj "(utext \<times> json) list"

datatype py_error = TimeoutExpired | JSONDecodeError | TypeError | AttributeError | OtherError

datatype proc_outcome =
    Raises py_error        \<comment> \<open>\<open>subprocess.run\<close> raises: the timeout, or the spawn fails\<close>
  | Completed int utext    \<comment> \<open>return code and standard output\<close>

record memory_doc =
  m_content :: utext
  m_score :: real
  m_metadata :: "(string \<times> json) list"

record mcp =
  run_client :: "utext \<Rightarrow> proc_outcome"
  strip_ansi :: "utext \<Rightarrow> utext"
  json_loads :: "utext \<Rightarrow> py_error + json"
  findall_observations :: "utext \<Rightarrow> utext list"

definition u_space :: "nat \<Rightarrow> bool" where
  \<comment> \<open>\<open>str.isspace\<close> on a code point\<close>
  "u_space n =
     ((9 \<le> n \<and> n \<le> 13) \<or> (28 \<le> n \<and> n \<le> 32) \<or> n = 133 \<or> n = 160 \<or> n = 5760
      \<or> (8192 \<le> n \<and> n \<le> 8202) \<or> n = 8232 \<or> n = 8233 \<or> n = 8239 \<or> n = 8287 \<or> n = 12288)"

definition u_strip :: "utext \<Rightarrow> utext" where
  "u_strip s = rev (dropWhile u_space (rev (dropWhile u_space s)))"

fun index_of :: "'a \<Rightarrow> 'a list \<Rightarrow> nat option" where
  "index_of c [] = None"
| "index_of c (x # xs) = (if x = c then Some 0 else map_option Suc (index_of c xs))"

definition py_find :: "nat \<Rightarrow> nat \<Rightarrow> utext \<Rightarrow> int" where
  \<comment> \<open>\<open>s.find(c, start)\<close> for one character and \<open>start \<ge> 0\<close>\<close>
  "py_find c start s =
     (case index_of c (drop start s) of None \<Rightarrow> - 1 | Some j \<Rightarrow> int (start + j))"

function py_replace :: "'a list \<Rightarrow> 'a list \<Rightarrow> 'a list \<Rightarrow> 'a list" where
  \<comment> \<open>\<open>s.replace(old, new)\<close> for a non-empty \<open>old\<close>: left to right, without overlap\<close>
  "py_replace old new [] = []"
| "py_replace old new (c # cs) =
     (if old \<noteq> [] \<and> prefix old (c # cs)
      then new @ py_replace old new (drop (length old) (c # cs))
      else c # py_replace old new cs)"
  by pat_completeness auto
termination
  by (relation "measure (\<lambda>(old, new, s). length s)") (auto simp: neq_Nil_conv)

fun truthy :: "json \<Rightarrow> bool" where
  "truthy JNull = False"
| "truthy (JBool b) = b"
| "truthy (JNum x) = (x \<noteq> 0)"
| "truthy (JStr s) = (s \<noteq> [])"
| "truthy (JArr xs) = (xs \<noteq> [])"
| "truthy (JObj kvs) = (kvs \<noteq> [])"

definition get_json :: "(utext \<times> json) list \<Rightarrow> string \<Rightarrow> json option" where
  \<comment> \<open>\<open>d.get(key)\<close>, \<open>None\<close> for Python's \<open>None\<close>\<close>
  "get_json kvs k = map_of kvs (ascii k)"

definition py_or :: "json option \<Rightarrow> json option \<Rightarrow> json" where
  \<comment> \<open>\<open>a or b\<close>, Python's \<open>None\<close> written as \<open>JNull\<close> in the result\<close>
  "py_or a b =
     (case a of
        Some x \<Rightarrow> if truthy x then x else get_or b JNull
      | None \<Rightarrow> get_or b JNull)"

fun collect :: "('a \<Rightarrow> py_error + 'b list) \<Rightarrow> 'a list \<Rightarrow> py_error + 'b list" where
  \<comment> \<open>a loop that appends what each element yields and stops at the first exception\<close>
  "collect f [] = Inr []"
| "collect f (x # xs) =
     (case f x of
        Inl err \<Rightarrow> Inl err
      | Inr ys \<Rightarrow> (case collect f xs of Inl err \<Rightarrow> Inl err | Inr zs \<Rightarrow> Inr (ys @ zs)))"

definition observation_doc ::
  "json \<Rightarrow> json \<Rightarrow> json \<Rightarrow> json \<Rightarrow> json \<Rightarrow> py_error + memory_doc list"
where
  \<comment> \<open>the body of \<open>for obs in observations\<close>: \<open>obs.strip()\<close> exists on strings only\<close>
  "observation_doc ent_name ent_type ent_created ent_updated obs =
     (case obs of
        JStr s \<Rightarrow>
          if length (u_strip s) > 100
          then Inr [\<lparr>m_content = s, m_score = 1,
                     m_metadata = [(''entity'', ent_name), (''type'', ent_type),
                                   (''createdAt'', ent_created), (''updatedAt'', ent_updated)]\<rparr>]
          else Inr []
      | _ \<Rightarrow> Inl AttributeError)"

definition entity_docs :: "json \<Rightarrow> py_error + memory_doc list" where
  \<comment> \<open>the body of \<open>for entity in data['entities'][:limit]\<close>. Iterating a string yields
      its characters, iterating a dict its keys; a number, a boolean or null cannot be
      iterated\<close>
  "entity_docs entity =
     (case entity of
        JObj kvs \<Rightarrow>
          (let observations = get_or (get_json kvs ''observations'') (JArr []);
               ent_name = get_or (get_json kvs ''name'') (JStr []);
               ent_type = get_or (get_json kvs ''entityType'') (JStr []);
               ent_created = py_or (get_json kvs ''createdAt'') (get_json kvs ''created_at'');
               ent_updated = py_or (get_json kvs ''updatedAt'') (get_json kvs ''updated_at'');
               each = observation_doc ent_name ent_type ent_created ent_updated
           in case observations of
                JArr obs \<Rightarrow> collect each obs
              | JStr s \<Rightarrow> collect each (map (\<lambda>c. JStr [c]) s)
              | JObj okvs \<Rightarrow> collect each (map (\<lambda>(k, v). JStr k) okvs)
              | _ \<Rightarrow> Inl TypeError)
      | _ \<Rightarrow> Inl AttributeError)"

definition documents_of :: "json \<Rightarrow> int \<Rightarrow> py_error + memory_doc list" where
  \<comment> \<open>from \<open>docs = []\<close> to \<open>return docs[:limit]\<close>. \<open>'entities' in data\<close> is a key test
      on a dict, an element test on a list, a substring test on a string and a TypeError
      otherwise; \<open>data['entities']\<close> exists on a dict only\<close>
  "documents_of data limit =
     (case data of
        JObj kvs \<Rightarrow>
          (case get_json kvs ''entities'' of
             None \<Rightarrow> Inr []
           | Some (JArr entities) \<Rightarrow>
               (case collect entity_docs (py_take limit entities) of
                  Inl err \<Rightarrow> Inl err
                | Inr docs \<Rightarrow> Inr (py_take limit docs))
           | Some (JStr s) \<Rightarrow>
               (case collect entity_docs (map (\<lambda>c. JStr [c]) (py_take limit s)) of
                  Inl err \<Rightarrow> Inl err
                | Inr docs \<Rightarrow> Inr (py_take limit docs))
           | Some _ \<Rightarrow> Inl TypeError)
      | JArr xs \<Rightarrow> if JStr (ascii ''entities'') \<in> set xs then Inl TypeError else Inr []
      | JStr s \<Rightarrow> if sublist (ascii ''entities'') s then Inl TypeError else Inr []
      | _ \<Rightarrow> Inl TypeError)"

definition unescape :: "utext \<Rightarrow> utext" where
  \<comment> \<open>the three \<open>replace\<close> calls of \<open>_extract_via_regex\<close>, in their order\<close>
  "unescape m =
     py_replace [0x5C, 0x5C] [0x5C]
       (py_replace [0x5C, 0x22] [0x22]
          (py_replace [0x5C, 0x6E] [0x0A] m))"

definition extract_via_regex :: "mcp \<Rightarrow> utext \<Rightarrow> int \<Rightarrow> memory_doc list" where
  "extract_via_regex self text limit =
     (let matches = findall_observations self (take 500000 text)
      in concat (map (\<lambda>m. let c = unescape m
                           in if length c > 100
                              then [\<lparr>m_content = c, m_score = 1,
                                     m_metadata = [(''source'', JStr (ascii ''regex_extraction''))]\<rparr>]
                              else [])
                  (py_take limit matches)))"

definition search_body :: "mcp \<Rightarrow> utext \<Rightarrow> int \<Rightarrow> py_error + memory_doc list" where
  \<comment> \<open>the \<open>try\<close> block of \<open>search\<close>: \<open>Inl\<close> is an exception that leaves the block\<close>
  "search_body self q limit =
     (case run_client self q of
        Raises err \<Rightarrow> Inl err
      | Completed returncode output \<Rightarrow>
          if returncode \<noteq> 0 then Inr []
          else
            (let clean = strip_ansi self output
             in if 0x2705 \<in> set clean then
                  (let json_start = py_find 0x7B (nat (py_find 0x2705 0 clean)) clean
                   in if json_start \<noteq> - 1 then
                        (case json_loads self (drop (nat json_start) clean) of
                           Inr data \<Rightarrow> documents_of data limit
                         | Inl JSONDecodeError \<Rightarrow> Inr (extract_via_regex self clean limit)
                         | Inl err \<Rightarrow> Inl err)
                      else Inr [])
                else Inr []))"

definition search :: "mcp \<Rightarrow> utext \<Rightarrow> int \<Rightarrow> py_error + memory_doc list" where
  \<comment> \<open>\<open>MCPMemoryDirect.search\<close> with its two handlers: \<open>except subprocess.TimeoutExpired\<close>
      and \<open>except Exception\<close>\<close>
  "search self q limit =
     (case search_body self q limit of
        Inl TimeoutExpired \<Rightarrow> Inr []
      | Inl err \<Rightarrow> Inr []
      | Inr docs \<Rightarrow> Inr docs)"

section \<open>Properties: context compression\<close>






section \<open>Properties: query planning\<close>

text \<open>
  C10. Query planning always returns between one and three sub-questions. When the model
  call fails, or its reply has no non-blank line, the result is exactly the one-element
  list holding the original query.
\<close>

theorem plan_query_nonempty_at_most_three:
  "plan_query claude q \<noteq> []
   \<and> length (plan_query claude q) \<le> 3
   \<and> (claude (plan_prompt q) = LLMError \<longrightarrow> plan_query claude q = [q])
   \<and> (\<forall>text. claude (plan_prompt q) = LLMText text
          \<and> (\<forall>l \<in> set (split_on (CHR 0x0A) (py_strip text)). py_strip l = [])
          \<longrightarrow> plan_query claude q = [q])"
proof -
  have blank: "filter (\<lambda>s. py_strip s \<noteq> []) ls = []" if "\<forall>l \<in> set ls. py_strip l = []" for ls
    using that by (induction ls) auto
  show ?thesis
    by (auto simp: plan_query_def Let_def blank split: llm_reply.splits)
qed

text \<open>
  Both fallbacks at concrete inputs: a failing call, and a reply of two blank lines.
\<close>

theorem plan_query_nonempty_at_most_three_witness:
  "plan_query (\<lambda>p. LLMError) ''como funciona o pipeline'' = [''como funciona o pipeline'']
   \<and> plan_query (\<lambda>p. LLMText [CHR '' '', CHR 0x0A, CHR '' '']) ''q'' = [''q'']"
  using plan_query_nonempty_at_most_three [of "\<lambda>p. LLMError" "''como funciona o pipeline''"]
        plan_query_nonempty_at_most_three [of "\<lambda>p. LLMText [CHR '' '', CHR 0x0A, CHR '' '']" "''q''"]
  by (simp add: py_strip_def is_space_def)

section \<open>Properties: the query cache\<close>

lemma find_filter_keep:
  "find P xs = Some x \<Longrightarrow> Q x \<Longrightarrow> find P (filter Q xs) = Some x"
  by (induction xs) (auto split: if_splits)

lemma find_unlink: "find (\<lambda>f. f_key f = k) (unlink k dir) = None"
  by (induction dir) (auto simp: unlink_def)

lemma map_key_overwrite:
  "map (f_key \<circ> (\<lambda>f. if f_key f = k then f\<lparr>f_mtime := mt, f_body := body\<rparr> else f)) dir
     = map f_key dir"
  by (induction dir) auto

lemma write_text_distinct:
  "distinct (map f_key dir) \<Longrightarrow> distinct (map f_key (write_text k mt body dir))"
  by (auto simp: write_text_def map_key_overwrite)

lemma write_text_find:
  "find (\<lambda>f. f_key f = k) (write_text k mt body dir)
     = Some \<lparr>f_key = k, f_mtime = mt, f_body = body\<rparr>"
proof (cases "k \<in> set (map f_key dir)")
  case True
  then have "find (\<lambda>f. f_key f = k)
               (map (\<lambda>f. if f_key f = k then f\<lparr>f_mtime := mt, f_body := body\<rparr> else f) dir)
             = Some \<lparr>f_key = k, f_mtime = mt, f_body = body\<rparr>"
    by (induction dir) auto
  with True show ?thesis by (simp add: write_text_def)
next
  case False
  then have "find (\<lambda>f. f_key f = k) (dir @ [\<lparr>f_key = k, f_mtime = mt, f_body = body\<rparr>])
             = Some \<lparr>f_key = k, f_mtime = mt, f_body = body\<rparr>"
    by (induction dir) auto
  with False show ?thesis by (simp add: write_text_def)
qed

lemma write_text_others:
  "f \<in> set (write_text k mt body dir) \<Longrightarrow> f_key f \<noteq> k \<Longrightarrow> f \<in> set dir"
  by (auto simp: write_text_def split: if_splits)

lemma find_Some_mem: "find P xs = Some x \<Longrightarrow> x \<in> set xs \<and> P x"
  by (induction xs) (auto split: if_splits)

lemma newest_not_stale:
  fixes g :: "'a \<Rightarrow> real"
  assumes x: "x \<in> set xs" and newest: "\<forall>y \<in> set xs. y \<noteq> x \<longrightarrow> g x < g y"
    and d: "distinct xs" and n: "0 < n"
  shows "x \<notin> set (drop n (sort_key g xs))"
proof -
  let ?s = "sort_key g xs"
  from x have ne: "?s \<noteq> []" by (metis empty_iff list.set(1) set_sort)
  then obtain h t where s: "?s = h # t" by (cases ?s) auto
  have sorted: "sorted (map g ?s)" by simp
  have "h \<in> set xs" using s by (metis list.set_intros(1) set_sort)
  have "x \<in> set ?s" using x by simp
  have "g h \<le> g x"
    using sorted s \<open>x \<in> set ?s\<close> by auto
  with newest \<open>h \<in> set xs\<close> have "h = x" by force
  moreover have "distinct ?s" using d by simp
  ultimately have "x \<notin> set t" using s by auto
  moreover have "set (drop n ?s) \<subseteq> set t"
    using n s by (cases n) (auto dest: in_set_dropD)
  ultimately show ?thesis by blast
qed

lemma cache_set_find:
  assumes cap: "0 < max_entries c" and d: "distinct (map f_key dir)"
    and listing: "\<forall>d. distinct d \<longrightarrow> distinct (cache_dir c d) \<and> set (cache_dir c d) = set d"
    and older: "\<forall>f \<in> set dir. f_key f \<noteq> k \<longrightarrow> f_mtime f < mt"
  shows "find (\<lambda>f. f_key f = k) (cache_set c t0 mt k p ttl dir)
     = Some \<lparr>f_key = k, f_mtime = mt,
             f_body = Readable \<lparr>rec_ts = Some t0,
                rec_ttl = Some (case ttl of None \<Rightarrow> default_ttl c | Some t \<Rightarrow> t),
                rec_payload = Some p\<rparr>\<rparr>"
proof -
  let ?body = "Readable \<lparr>rec_ts = Some t0,
                rec_ttl = Some (case ttl of None \<Rightarrow> default_ttl c | Some t \<Rightarrow> t),
                rec_payload = Some p\<rparr>"
  let ?x = "\<lparr>f_key = k, f_mtime = mt, f_body = ?body\<rparr>"
  let ?dir = "write_text k mt ?body dir"
  let ?g = "\<lambda>p :: 'a cache_file. - f_mtime p"
  let ?stale = "drop (nat (max_entries c)) (sort_key ?g (cache_dir c ?dir))"
  have fnd: "find (\<lambda>f. f_key f = k) ?dir = Some ?x" by (rule write_text_find)
  then have x_in: "?x \<in> set ?dir" by (auto dest: find_Some_mem)
  have dk: "distinct (map f_key ?dir)" using d by (rule write_text_distinct)
  then have dd: "distinct ?dir" and inj: "inj_on f_key (set ?dir)"
    by (auto simp: distinct_map)
  from listing dd have ld: "distinct (cache_dir c ?dir)"
    and ls: "set (cache_dir c ?dir) = set ?dir" by blast+
  have newest: "\<forall>y \<in> set (cache_dir c ?dir). y \<noteq> ?x \<longrightarrow> ?g ?x < ?g y"
  proof (intro ballI impI)
    fix y assume "y \<in> set (cache_dir c ?dir)" and ne: "y \<noteq> ?x"
    then have y: "y \<in> set ?dir" using ls by simp
    have "f_key y \<noteq> k"
    proof
      assume "f_key y = k"
      then have "f_key y = f_key ?x" by simp
      from inj_onD [OF inj this y x_in] ne show False by simp
    qed
    with y have "y \<in> set dir" by (auto dest: write_text_others)
    with older \<open>f_key y \<noteq> k\<close> show "?g ?x < ?g y" by simp
  qed
  have x_in': "?x \<in> set (cache_dir c ?dir)" using x_in ls by simp
  have "?x \<notin> set ?stale"
    using x_in' newest ld cap by (intro newest_not_stale) auto
  have "k \<notin> set (map f_key ?stale)"
  proof
    assume "k \<in> set (map f_key ?stale)"
    then obtain y where y: "y \<in> set ?stale" "f_key y = k" by auto
    then have "y \<in> set (cache_dir c ?dir)" by (auto dest: in_set_dropD)
    then have "y \<in> set ?dir" using ls by simp
    from y(2) have "f_key y = f_key ?x" by simp
    from inj_onD [OF inj this \<open>y \<in> set ?dir\<close> x_in] y(1) \<open>?x \<notin> set ?stale\<close>
    show False by simp
  qed
  then have "find (\<lambda>f. f_key f = k) (filter (\<lambda>f. f_key f \<notin> set (map f_key ?stale)) ?dir) = Some ?x"
    using fnd by (intro find_filter_keep) auto
  with cap show ?thesis by (simp add: cache_set_def prune_def Let_def)
qed

text \<open>
  C2 (as the code has it). With \<open>max_entries = 0\<close>, \<open>set\<close> leaves the directory as it
  is. Let the cache hold at least one entry (\<open>max_entries > 0\<close>), let the directory have
  one file per key, let the listing return every file of the directory once, in whatever
  order, and let every other file be older than the one \<open>set\<close> writes, so that pruning
  keeps it. Then \<open>get\<close> after \<open>set(k, p, t)\<close> returns exactly \<open>p\<close> and leaves the
  directory alone while the elapsed time is at most \<open>t\<close>, and at any later time when
  \<open>t = 0\<close>: a ttl of zero never expires. When \<open>t\<close> is not zero and the elapsed time
  exceeds it, \<open>get\<close> returns a miss and the entry is gone from the directory.
\<close>

theorem cache_get_after_set:
  "(max_entries c = 0 \<longrightarrow> cache_set c t0 mt k p (Some t) dir = dir)
   \<and> (0 < max_entries c \<and> distinct (map f_key dir)
        \<and> (\<forall>d. distinct d \<longrightarrow> distinct (cache_dir c d) \<and> set (cache_dir c d) = set d)
        \<and> (\<forall>f \<in> set dir. f_key f \<noteq> k \<longrightarrow> f_mtime f < mt)
       \<longrightarrow> (t = 0 \<or> now - t0 \<le> real_of_int t \<longrightarrow>
              cache_get c now k (cache_set c t0 mt k p (Some t) dir)
                = (Some p, cache_set c t0 mt k p (Some t) dir))
           \<and> (t \<noteq> 0 \<and> now - t0 > real_of_int t \<longrightarrow>
              fst (cache_get c now k (cache_set c t0 mt k p (Some t) dir)) = None
              \<and> find (\<lambda>f. f_key f = k)
                   (snd (cache_get c now k (cache_set c t0 mt k p (Some t) dir))) = None))"
proof (intro conjI impI)
  assume "max_entries c = 0"
  then show "cache_set c t0 mt k p (Some t) dir = dir" by (simp add: cache_set_def)
next
  assume h: "0 < max_entries c \<and> distinct (map f_key dir)
        \<and> (\<forall>d. distinct d \<longrightarrow> distinct (cache_dir c d) \<and> set (cache_dir c d) = set d)
        \<and> (\<forall>f \<in> set dir. f_key f \<noteq> k \<longrightarrow> f_mtime f < mt)"
  then have fnd: "find (\<lambda>f. f_key f = k) (cache_set c t0 mt k p (Some t) dir)
     = Some \<lparr>f_key = k, f_mtime = mt,
             f_body = Readable \<lparr>rec_ts = Some t0, rec_ttl = Some t, rec_payload = Some p\<rparr>\<rparr>"
    using cache_set_find [of c dir k mt t0 p "Some t"] by simp
  {
    assume "t = 0 \<or> now - t0 \<le> real_of_int t"
    with fnd show "cache_get c now k (cache_set c t0 mt k p (Some t) dir)
                = (Some p, cache_set c t0 mt k p (Some t) dir)"
      by (auto simp: cache_get_def get_or_def Let_def)
  }
  {
    assume "t \<noteq> 0 \<and> now - t0 > real_of_int t"
    with fnd show "fst (cache_get c now k (cache_set c t0 mt k p (Some t) dir)) = None"
      by (auto simp: cache_get_def get_or_def Let_def)
  }
  {
    assume "t \<noteq> 0 \<and> now - t0 > real_of_int t"
    with fnd show "find (\<lambda>f. f_key f = k)
                   (snd (cache_get c now k (cache_set c t0 mt k p (Some t) dir))) = None"
      by (auto simp: cache_get_def get_or_def Let_def find_unlink)
  }
qed

text \<open>
  A cache of capacity 0 beside an existing file; then, with capacity 2 and a listing in
  reverse order, an entry read within its ttl and again after it, beside an older
  unreadable file.
\<close>

theorem cache_get_after_set_witness:
  "cache_set (new_cache rev 900 0) 0 10 ''k'' ''answer'' (Some 60)
         [\<lparr>f_key = ''j'', f_mtime = 5, f_body = Unreadable\<rparr>]
     = [\<lparr>f_key = ''j'', f_mtime = 5, f_body = Unreadable\<rparr>]
   \<and> cache_get (new_cache rev 900 2) 30 ''k''
      (cache_set (new_cache rev 900 2) 0 10 ''k'' ''answer'' (Some 60)
         [\<lparr>f_key = ''j'', f_mtime = 5, f_body = Unreadable\<rparr>])
     = (Some ''answer'', cache_set (new_cache rev 900 2) 0 10 ''k'' ''answer'' (Some 60)
         [\<lparr>f_key = ''j'', f_mtime = 5, f_body = Unreadable\<rparr>])
   \<and> fst (cache_get (new_cache rev 900 2) 61 ''k''
      (cache_set (new_cache rev 900 2) 0 10 ''k'' ''answer'' (Some 60)
         [\<lparr>f_key = ''j'', f_mtime = 5, f_body = Unreadable\<rparr>])) = None"
  using cache_get_after_set [of "new_cache rev 900 0" 0 10 "''k''" "''answer''" 60
          "[\<lparr>f_key = ''j'', f_mtime = 5, f_body = Unreadable\<rparr>]" 30]
        cache_get_after_set [of "new_cache rev 900 2" 0 10 "''k''" "''answer''" 60
          "[\<lparr>f_key = ''j'', f_mtime = 5, f_body = Unreadable\<rparr>]" 30]
        cache_get_after_set [of "new_cache rev 900 2" 0 10 "''k''" "''answer''" 60
          "[\<lparr>f_key = ''j'', f_mtime = 5, f_body = Unreadable\<rparr>]" 61]
  by (simp add: new_cache_def)

text \<open>
  The claim as stated fails in three ways: an entry stored with ttl 0 is still served 100
  seconds later; a cache of capacity 0 stores nothing, so \<open>get\<close> misses within the ttl;
  and with capacity 1, another file \<open>k\<close> of the same modification time and a listing
  that returns \<open>k\<close> first, pruning unlinks the entry \<open>j\<close> just written.
\<close>

theorem cache_get_after_set_counterexample:
  "fst (cache_get (new_cache (\<lambda>d. d) 900 256) 100 ''k''
          (cache_set (new_cache (\<lambda>d. d) 900 256) 0 0 ''k'' ''answer'' (Some 0) []))
     = Some ''answer''
   \<and> fst (cache_get (new_cache (\<lambda>d. d) 900 0) 1 ''k''
          (cache_set (new_cache (\<lambda>d. d) 900 0) 0 0 ''k'' ''answer'' (Some 60) [])) = None
   \<and> fst (cache_get
            (new_cache (\<lambda>d. filter (\<lambda>f. f_key f = ''k'') d @ filter (\<lambda>f. f_key f \<noteq> ''k'') d)
               900 1) 1 ''j''
          (cache_set
             (new_cache (\<lambda>d. filter (\<lambda>f. f_key f = ''k'') d @ filter (\<lambda>f. f_key f \<noteq> ''k'') d)
                900 1) 0 10 ''j'' ''answer'' (Some 60)
             [\<lparr>f_key = ''k'', f_mtime = 10, f_body = Unreadable\<rparr>])) = None"
  by (simp add: cache_get_def cache_set_def new_cache_def prune_def write_text_def get_or_def)

section \<open>Properties: confidence\<close>

text \<open>
  C3 (as the code has it). In a run that is not served from the cache, the confidence
  returned is the one recorded; it is 50, with no re-ranked document, when the strategy has
  mode \<open>none\<close>, and \<open>min(100, 2 * reranked)\<close> otherwise; in both cases it lies in
  [0, 100].
\<close>

theorem query_confidence:
  assumes "query e self t_get t_set t_mtime dir q = Inr r"
    and "\<not> from_cache (logged r)"
  shows "snd (returned r) = confidence (logged r)
     \<and> (mode (decide_retrieval_strategy (default_top_k self) (process_query (fast_llm e) q)) = ''none''
          \<longrightarrow> snd (returned r) = 50 \<and> reranked (logged r) = 0)
     \<and> (mode (decide_retrieval_strategy (default_top_k self) (process_query (fast_llm e) q)) \<noteq> ''none''
          \<longrightarrow> snd (returned r) = min 100 (2 * real (reranked (logged r))))
     \<and> 0 \<le> snd (returned r) \<and> snd (returned r) \<le> 100"
  using assms
  by (auto simp: query_def Let_def split: option.splits if_splits sum.splits)

text \<open>
  A run with one retrieved document: confidence 2.
\<close>

theorem query_confidence_witness:
  "query \<lparr>fast_llm = (\<lambda>p. LLMError), main_llm = (\<lambda>q c m. LLMText ''ok''),
          agents = (\<lambda>pq s. [Some [\<lparr>doc_id = None, content = ''fase 2 em andamento'',
             score = Some 1, vector_score = None, temporal_boost = None, final_score = None,
             meta_stamp = NoStamp, meta_doc_type = None\<rparr>]]),
          cross_encoder = (\<lambda>a b. 1 / 2), str_hash = int \<circ> length, digest = kp_query\<rparr>
         \<lparr>project_name = ''scalp'', context_max_chars = 120000, default_top_k = 40,
          cache = None, intent_cache_policy = []\<rparr> 0 0 0 [] ''status do projeto''
     = Inr \<lparr>returned = (Generated ''ok'', 2),
          logged = \<lparr>rr_intent = ''status'', retrieved = 1, reranked = 1, context_chars = 42,
                    confidence = 2, from_cache = False, rr_answer = Generated ''ok'',
                    cache_ttl = 0\<rparr>,
          dir_after = []\<rparr>
   \<and> snd (returned \<lparr>returned = (Generated ''ok'', 2),
          logged = \<lparr>rr_intent = ''status'', retrieved = 1, reranked = 1, context_chars = 42,
                    confidence = 2, from_cache = False, rr_answer = Generated ''ok'',
                    cache_ttl = 0\<rparr>,
          dir_after = []\<rparr>) = min 100 (2 * real (1 :: nat))"
proof -
  have run: "query \<lparr>fast_llm = (\<lambda>p. LLMError), main_llm = (\<lambda>q c m. LLMText ''ok''),
          agents = (\<lambda>pq s. [Some [\<lparr>doc_id = None, content = ''fase 2 em andamento'',
             score = Some 1, vector_score = None, temporal_boost = None, final_score = None,
             meta_stamp = NoStamp, meta_doc_type = None\<rparr>]]),
          cross_encoder = (\<lambda>a b. 1 / 2), str_hash = int \<circ> length, digest = kp_query\<rparr>
         \<lparr>project_name = ''scalp'', context_max_chars = 120000, default_top_k = 40,
          cache = None, intent_cache_policy = []\<rparr> 0 0 0 [] ''status do projeto''
     = Inr \<lparr>returned = (Generated ''ok'', 2),
          logged = \<lparr>rr_intent = ''status'', retrieved = 1, reranked = 1, context_chars = 42,
                    confidence = 2, from_cache = False, rr_answer = Generated ''ok'',
                    cache_ttl = 0\<rparr>,
          dir_after = []\<rparr>"
    by code_simp
  have fresh: "\<not> from_cache (logged \<lparr>returned = (Generated ''ok'', 2),
          logged = \<lparr>rr_intent = ''status'', retrieved = 1, reranked = 1, context_chars = 42,
                    confidence = 2, from_cache = False, rr_answer = Generated ''ok'',
                    cache_ttl = 0\<rparr>,
          dir_after = []\<rparr>)"
    by simp
  from query_confidence [OF run fresh] run show ?thesis by simp
qed

text \<open>
  The claim as stated fails on a run whose strategy has mode \<open>none\<close>: no document is
  re-ranked, and the confidence returned is 50, not \<open>min(100, 2 * 0) = 0\<close>.
\<close>

theorem query_confidence_counterexample:
  "query \<lparr>fast_llm = (\<lambda>p. LLMError), main_llm = (\<lambda>q c m. LLMText ''ok''), agents = (\<lambda>pq s. []),
          cross_encoder = (\<lambda>a b. 0), str_hash = int \<circ> length, digest = kp_query\<rparr>
         \<lparr>project_name = ''scalp'', context_max_chars = 120000, default_top_k = 40, cache = None,
          intent_cache_policy = []\<rparr> 0 0 0 [] ''defina como funciona um cache''
   = Inr \<lparr>returned = (NoInformation, 50),
          logged = \<lparr>rr_intent = ''explain'', retrieved = 0, reranked = 0, context_chars = 0,
                    confidence = 50, from_cache = False, rr_answer = NoInformation, cache_ttl = 0\<rparr>,
          dir_after = []\<rparr>
   \<and> (50 :: real) \<noteq> min 100 (2 * real (0 :: nat))"
  by code_simp

section \<open>Properties: deduplication\<close>






section \<open>Properties: cache-key normalization\<close>

lemma build_cache_key_same_normalization:
  "normalize_query q1 = normalize_query q2 \<Longrightarrow>
   build_cache_key d self q1 pq strat = build_cache_key d self q2 pq strat"
  by (simp add: build_cache_key_def split: option.splits)

text \<open>
  C5. Normalization is not idempotent in the code: \<open>strip()\<close> runs before the
  punctuation is removed, so a query that ends in a space and a punctuation mark keeps the
  space. Normalizing \<open>what is rag ?\<close> leaves a trailing space, which a second
  normalization removes. The other half of the claim holds
  (\<open>build_cache_key_same_normalization\<close>): queries with the same normalization and
  the same other fields get the same key.
\<close>

theorem normalize_query_not_idempotent:
  "normalize_query ''what is rag ?'' = ''what is rag ''
   \<and> normalize_query (normalize_query ''what is rag ?'') = ''what is rag''
   \<and> normalize_query (normalize_query ''what is rag ?'') \<noteq> normalize_query ''what is rag ?''"
  by code_simp

section \<open>Properties: the strategy planner\<close>

text \<open>
  C6 (as the code has it). The planner returns mode \<open>none\<close> exactly when the intent is
  \<open>explain\<close>, the lowercased query contains a generic definitional phrase and it contains
  no project token.
\<close>

theorem strategy_mode_none:
  "mode (decide_retrieval_strategy k pq) = ''none'' \<longleftrightarrow>
     intent pq = ''explain''
     \<and> py_any_in generic_terms (py_lower (original pq))
     \<and> \<not> py_any_in project_tokens (py_lower (original pq))"
  by (simp add: decide_retrieval_strategy_def Let_def)

text \<open>
  A definitional query that also asks how something works has intent \<open>explain\<close>.
\<close>

theorem strategy_mode_none_witness:
  "mode (decide_retrieval_strategy 40
        \<lparr>original = ''defina como funciona um cache'', concepts = [], expansions = [],
         temporal = extract_temporal ''defina como funciona um cache'',
         intent = classify_intent ''defina como funciona um cache''\<rparr>) = ''none''"
proof -
  have "classify_intent ''defina como funciona um cache'' = ''explain''" by code_simp
  moreover have "py_any_in generic_terms (py_lower ''defina como funciona um cache'')" by code_simp
  moreover have "\<not> py_any_in project_tokens (py_lower ''defina como funciona um cache'')" by code_simp
  ultimately show ?thesis
    using strategy_mode_none [of 40 "\<lparr>original = ''defina como funciona um cache'', concepts = [], expansions = [],
         temporal = extract_temporal ''defina como funciona um cache'',
         intent = classify_intent ''defina como funciona um cache''\<rparr>"]
    by simp
qed

text \<open>
  The claim as stated fails: \<open>defina cache\<close> contains a generic definitional phrase and
  no project token, its intent is \<open>general\<close>, and the planner keeps mode \<open>hybrid\<close>.
\<close>

theorem strategy_mode_none_counterexample:
  "py_any_in generic_terms (py_lower ''defina cache'')
   \<and> \<not> py_any_in project_tokens (py_lower ''defina cache'')
   \<and> mode (decide_retrieval_strategy 40
        \<lparr>original = ''defina cache'', concepts = [], expansions = [],
         temporal = extract_temporal ''defina cache'',
         intent = classify_intent ''defina cache''\<rparr>) = ''hybrid''"
  by code_simp

text \<open>
  C9 (as the code has it). The base default is \<open>use_keywords = (intent != 'code')\<close>; the
  objective-question rule sets it, the \<open>none\<close> rule clears it. So keyword retrieval is
  on exactly when the mode is \<open>hybrid\<close> and the intent is not \<open>code\<close> or the query
  carries an objective marker.
\<close>

theorem strategy_use_keywords:
  "use_keywords (decide_retrieval_strategy k pq) =
     (mode (decide_retrieval_strategy k pq) = ''hybrid''
      \<and> (intent pq \<noteq> ''code'' \<or> py_any_in objective_markers (py_lower (original pq))))"
  by (simp add: decide_retrieval_strategy_def Let_def)

text \<open>
  A query of intent \<open>code\<close> that asks where something is: keyword retrieval is on.
\<close>

theorem strategy_use_keywords_witness:
  "intent \<lparr>original = ''onde fica o bug'', concepts = [], expansions = [],
       temporal = extract_temporal ''onde fica o bug'',
       intent = classify_intent ''onde fica o bug''\<rparr> = ''code''
   \<and> use_keywords (decide_retrieval_strategy 40
      \<lparr>original = ''onde fica o bug'', concepts = [], expansions = [],
       temporal = extract_temporal ''onde fica o bug'',
       intent = classify_intent ''onde fica o bug''\<rparr>)"
proof -
  have i: "classify_intent ''onde fica o bug'' = ''code''" by code_simp
  have o: "py_any_in objective_markers (py_lower ''onde fica o bug'')" by code_simp
  have m: "mode (decide_retrieval_strategy 40
      \<lparr>original = ''onde fica o bug'', concepts = [], expansions = [],
       temporal = extract_temporal ''onde fica o bug'',
       intent = classify_intent ''onde fica o bug''\<rparr>) = ''hybrid''"
    using i by (simp add: decide_retrieval_strategy_def Let_def)
  show ?thesis
    using strategy_use_keywords [of 40 "\<lparr>original = ''onde fica o bug'', concepts = [], expansions = [],
       temporal = extract_temporal ''onde fica o bug'',
       intent = classify_intent ''onde fica o bug''\<rparr>"] i o m
    by simp
qed

text \<open>
  The claim as stated fails: a query of intent \<open>code\<close> without an objective marker gets
  a \<open>hybrid\<close> strategy with keyword retrieval off.
\<close>

theorem strategy_use_keywords_counterexample:
  "mode (decide_retrieval_strategy 40
      \<lparr>original = ''corrigir bug no login'', concepts = [], expansions = [],
       temporal = extract_temporal ''corrigir bug no login'',
       intent = classify_intent ''corrigir bug no login''\<rparr>) = ''hybrid''
   \<and> \<not> use_keywords (decide_retrieval_strategy 40
      \<lparr>original = ''corrigir bug no login'', concepts = [], expansions = [],
       temporal = extract_temporal ''corrigir bug no login'',
       intent = classify_intent ''corrigir bug no login''\<rparr>)"
  by code_simp

section \<open>Properties: temporal weighting\<close>

lemma exp_7_3: "10 < exp (7 / 3 :: real)"
proof -
  have "1 + (7 / 24 :: real) + (7 / 24)\<^sup>2 / 2 \<le> exp (7 / 24)"
    by (rule exp_lower_Taylor_quadratic) simp
  then have "(1 + (7 / 24 :: real) + (7 / 24)\<^sup>2 / 2) ^ 8 \<le> exp (7 / 24) ^ 8"
    by (intro power_mono) simp_all
  moreover have "exp (7 / 24 :: real) ^ 8 = exp (7 / 3)"
    using exp_of_nat_mult [of 8 "7 / 24 :: real"] by simp
  moreover have "(10 :: real) < (1 + 7 / 24 + (7 / 24)\<^sup>2 / 2) ^ 8"
    by (simp add: power2_eq_square field_simps)
  ultimately show ?thesis by linarith
qed

lemma schedule_not_11_10: "spec_schedule age 3 \<noteq> 11 / 10"
proof (cases "age \<le> 7")
  case True
  then show ?thesis by (simp add: spec_schedule_def)
next
  case False
  then have "exp (- age / 3) < exp (- (7 / 3 :: real))" by simp
  also have "\<dots> = 1 / exp (7 / 3)" by (simp add: exp_minus field_simps)
  also have "\<dots> < 1 / 10" using exp_7_3 by (simp add: field_simps)
  finally show ?thesis using False by (simp add: spec_schedule_def)
qed

text \<open>
  An ISO string without offset converts to a naive datetime; subtracting it from the aware
  current time raises TypeError, and the handler stores 1.1. The same instant written with
  an offset, two days before the current time, gets the 2.0 of the schedule.
\<close>

lemma naive_timestamp_boost:
  "boost_of 172800 3 \<lparr>doc_id = None, content = replicate 120 (CHR ''m''), score = Some 1,
        vector_score = None, temporal_boost = None, final_score = None,
        meta_stamp = NaiveStamp 0, meta_doc_type = None\<rparr> = 11 / 10
   \<and> boost_of 172800 3 \<lparr>doc_id = None, content = replicate 120 (CHR ''m''), score = Some 1,
        vector_score = None, temporal_boost = None, final_score = None,
        meta_stamp = Stamp 0, meta_doc_type = None\<rparr> = 2"
  by (simp add: boost_of_def try_boost_def)




section \<open>Properties: the memory search client\<close>

lemma extract_via_regex_long:
  "d \<in> set (extract_via_regex self text limit) \<Longrightarrow> length (m_content d) > 100"
  by (auto simp: extract_via_regex_def Let_def split: if_splits)

lemma py_replace_absent:
  "old \<noteq> [] \<Longrightarrow> hd old \<notin> set s \<Longrightarrow> py_replace old new s = s"
  by (induction s) (auto simp: prefix_def neq_Nil_conv)

text \<open>
  C8. The memory search never lets an exception out: it always returns a list. On a
  timeout and on a non-zero exit status the list is empty. When the output holds the marker
  and a JSON block that does not parse, the result is the regex extraction, and every
  document of a regex extraction has more than 100 characters.
\<close>

theorem search_absorbs_failures:
  "(\<exists>docs. search self q limit = Inr docs)
   \<and> (run_client self q = Raises TimeoutExpired \<longrightarrow> search self q limit = Inr [])
   \<and> (\<forall>returncode output. run_client self q = Completed returncode output \<and> returncode \<noteq> 0
         \<longrightarrow> search self q limit = Inr [])
   \<and> (\<forall>output. run_client self q = Completed 0 output
         \<and> 0x2705 \<in> set (strip_ansi self output)
         \<and> py_find 0x7B (nat (py_find 0x2705 0 (strip_ansi self output))) (strip_ansi self output)
             \<noteq> - 1
         \<and> json_loads self
              (drop (nat (py_find 0x7B (nat (py_find 0x2705 0 (strip_ansi self output)))
                            (strip_ansi self output)))
                 (strip_ansi self output)) = Inl JSONDecodeError
         \<longrightarrow> search self q limit = Inr (extract_via_regex self (strip_ansi self output) limit))
   \<and> (\<forall>text. \<forall>d \<in> set (extract_via_regex self text limit). length (m_content d) > 100)"
proof -
  have "\<exists>docs. search self q limit = Inr docs"
    by (auto simp: search_def split: sum.splits py_error.splits)
  moreover have "run_client self q = Raises TimeoutExpired \<longrightarrow> search self q limit = Inr []"
    by (simp add: search_def search_body_def)
  moreover have "\<forall>returncode output. run_client self q = Completed returncode output \<and> returncode \<noteq> 0
         \<longrightarrow> search self q limit = Inr []"
    by (simp add: search_def search_body_def)
  moreover have "\<forall>output. run_client self q = Completed 0 output
         \<and> 0x2705 \<in> set (strip_ansi self output)
         \<and> py_find 0x7B (nat (py_find 0x2705 0 (strip_ansi self output))) (strip_ansi self output)
             \<noteq> - 1
         \<and> json_loads self
              (drop (nat (py_find 0x7B (nat (py_find 0x2705 0 (strip_ansi self output)))
                            (strip_ansi self output)))
                 (strip_ansi self output)) = Inl JSONDecodeError
         \<longrightarrow> search self q limit = Inr (extract_via_regex self (strip_ansi self output) limit)"
    by (simp add: search_def search_body_def Let_def)
  ultimately show ?thesis using extract_via_regex_long by blast
qed

text \<open>
  A timeout, an exit status of 1, and an output whose JSON block is cut after its first
  quote: the first two give the empty list, the third the one observation of 101
  characters that the pattern found, the short one being dropped.
\<close>

theorem search_absorbs_failures_witness:
  "search \<lparr>run_client = (\<lambda>q. Raises TimeoutExpired), strip_ansi = (\<lambda>s. s),
            json_loads = (\<lambda>s. Inl JSONDecodeError), findall_observations = (\<lambda>t. [])\<rparr>
      (ascii ''selector21'') 30 = Inr []
   \<and> search \<lparr>run_client = (\<lambda>q. Completed 1 []), strip_ansi = (\<lambda>s. s),
            json_loads = (\<lambda>s. Inl JSONDecodeError), findall_observations = (\<lambda>t. [])\<rparr>
      (ascii ''selector21'') 30 = Inr []
   \<and> search \<lparr>run_client = (\<lambda>q. Completed 0 [0x2705, 0x20, 0x7B, 0x22]), strip_ansi = (\<lambda>s. s),
            json_loads = (\<lambda>s. Inl JSONDecodeError),
            findall_observations = (\<lambda>t. [replicate 101 0x61, [0x61, 0x5C, 0x6E]])\<rparr>
      (ascii ''selector21'') 30
     = Inr [\<lparr>m_content = replicate 101 0x61, m_score = 1,
             m_metadata = [(''source'', JStr (ascii ''regex_extraction''))]\<rparr>]"
proof -
  have a: "search \<lparr>run_client = (\<lambda>q. Raises TimeoutExpired), strip_ansi = (\<lambda>s. s),
            json_loads = (\<lambda>s. Inl JSONDecodeError), findall_observations = (\<lambda>t. [])\<rparr>
      (ascii ''selector21'') 30 = Inr []"
    using search_absorbs_failures [of "\<lparr>run_client = (\<lambda>q. Raises TimeoutExpired), strip_ansi = (\<lambda>s. s),
            json_loads = (\<lambda>s. Inl JSONDecodeError), findall_observations = (\<lambda>t. [])\<rparr>"
            "ascii ''selector21''" 30]
    by simp
  have b: "search \<lparr>run_client = (\<lambda>q. Completed 1 []), strip_ansi = (\<lambda>s. s),
            json_loads = (\<lambda>s. Inl JSONDecodeError), findall_observations = (\<lambda>t. [])\<rparr>
      (ascii ''selector21'') 30 = Inr []"
    using search_absorbs_failures [of "\<lparr>run_client = (\<lambda>q. Completed 1 []), strip_ansi = (\<lambda>s. s),
            json_loads = (\<lambda>s. Inl JSONDecodeError), findall_observations = (\<lambda>t. [])\<rparr>"
            "ascii ''selector21''" 30]
    by simp
  have c: "search \<lparr>run_client = (\<lambda>q. Completed 0 [0x2705, 0x20, 0x7B, 0x22]), strip_ansi = (\<lambda>s. s),
            json_loads = (\<lambda>s. Inl JSONDecodeError),
            findall_observations = (\<lambda>t. [replicate 101 0x61, [0x61, 0x5C, 0x6E]])\<rparr>
      (ascii ''selector21'') 30
     = Inr (extract_via_regex \<lparr>run_client = (\<lambda>q. Completed 0 [0x2705, 0x20, 0x7B, 0x22]), strip_ansi = (\<lambda>s. s),
            json_loads = (\<lambda>s. Inl JSONDecodeError),
            findall_observations = (\<lambda>t. [replicate 101 0x61, [0x61, 0x5C, 0x6E]])\<rparr>
            [0x2705, 0x20, 0x7B, 0x22] 30)"
    using search_absorbs_failures [of "\<lparr>run_client = (\<lambda>q. Completed 0 [0x2705, 0x20, 0x7B, 0x22]), strip_ansi = (\<lambda>s. s),
            json_loads = (\<lambda>s. Inl JSONDecodeError),
            findall_observations = (\<lambda>t. [replicate 101 0x61, [0x61, 0x5C, 0x6E]])\<rparr>"
            "ascii ''selector21''" 30]
    by (simp add: py_find_def)
  have d: "extract_via_regex \<lparr>run_client = (\<lambda>q. Completed 0 [0x2705, 0x20, 0x7B, 0x22]), strip_ansi = (\<lambda>s. s),
            json_loads = (\<lambda>s. Inl JSONDecodeError),
            findall_observations = (\<lambda>t. [replicate 101 0x61, [0x61, 0x5C, 0x6E]])\<rparr>
            [0x2705, 0x20, 0x7B, 0x22] 30
      = [\<lparr>m_content = replicate 101 0x61, m_score = 1,
             m_metadata = [(''source'', JStr (ascii ''regex_extraction''))]\<rparr>]"
    by (simp add: extract_via_regex_def unescape_def py_replace_absent)
  show ?thesis using a b c d by simp
qed


end
